theory Spec2Isabelle
  imports Main "HOL-Library.Sublist" "HOL-Library.AList" "HOL-Library.Char_ord"
    "HOL-Library.List_Lexorder"
begin

section \<open>The OIDC identity provider (authn/idprovider/oidc/provider.go)\<close>

text \<open>
  The provider delegates every network and parsing step to libraries that are not part
  of the repository (golang.org/x/oauth2, github.com/coreos/go-oidc,
  github.com/golang-jwt/jwt, encoding/json, net/http). Their outcomes are inputs of the
  model: a record \<open>deps\<close> of functions, one per library operation, and the two optional
  capabilities \<open>Provider\<close> and \<open>Verifier\<close> held by the provider itself. What the
  repository's own code does with those outcomes is translated statement by statement.
\<close>

subsection \<open>Dynamic values and claim sets\<close>

text \<open>
  A Go \<open>interface{}\<close> holding decoded JSON: nil, bool, float64, string, slice or map.
  Numbers are carried as their literal text (the provider reads none); the members of an
  object are kept in document order, so that a repeated key can be traced.
\<close>

datatype jvalue =
    JNull
  | JBool bool
  | JNumber string
  | JString string
  | JArray "jvalue list"
  | JObject "(string \<times> jvalue) list"

text \<open>\<open>jwt.MapClaims\<close> is \<open>map[string]interface{}\<close>; a nil map reads like an empty one.\<close>

type_synonym claims = "string \<rightharpoonup> jvalue"

text \<open>The comma-ok type assertion \<open>s, ok := x.(string)\<close> on the result of a map read.\<close>

definition assert_string :: "jvalue option \<Rightarrow> string \<times> bool" where
  "assert_string x = (case x of Some (JString s) \<Rightarrow> (s, True) | _ \<Rightarrow> ('''', False))"

subsection \<open>Library data\<close>

text \<open>
  The request context carries at most one value, the HTTP client stored under the key
  \<open>oauth2.HTTPClient\<close>. \<open>context.TODO()\<close> carries none, is never cancelled and has no
  deadline.
\<close>

datatype http_Client = Client (TLS_InsecureSkipVerify: bool)

type_synonym Context = "http_Client option"

definition TODO :: Context where
  "TODO = None"

definition WithValue_HTTPClient :: "Context \<Rightarrow> http_Client \<Rightarrow> Context" where
  "WithValue_HTTPClient ctx client = Some client"

text \<open>\<open>oauth2.Token\<close>: the access token and the raw response fields read by \<open>Extra\<close>.\<close>

record Token =
  AccessToken :: string
  raw :: "string \<rightharpoonup> jvalue"

definition Extra :: "Token \<Rightarrow> string \<Rightarrow> jvalue option" where
  "Extra token key = raw token key"

text \<open>\<open>oauth2.Config\<close>, with its \<open>Endpoint\<close> flattened.\<close>

record Config =
  Config_ClientID :: string
  Config_ClientSecret :: string
  Config_AuthURL :: string
  Config_TokenURL :: string
  Config_RedirectURL :: string
  Config_Scopes :: "string list"

text \<open>
  An \<open>http.Response\<close> as the code uses it: the status code (never read by the provider)
  and what \<open>ioutil.ReadAll(resp.Body)\<close> returns, an error or the bytes.
\<close>

record Response =
  StatusCode :: nat
  Body :: "string + string"

text \<open>
  \<open>oidc.IDTokenVerifier\<close> is modelled by its \<open>Verify\<close> method, which returns an error or
  the ID token, reduced to the payload bytes that \<open>IDToken.Claims\<close> decodes;
  \<open>oidc.Provider\<close> by its \<open>UserInfo\<close> method, which returns an error or the body that
  \<open>UserInfo.Claims\<close> decodes. Library errors are carried as their message.
\<close>

type_synonym IDTokenVerifier = "Context \<Rightarrow> string \<Rightarrow> string + string"

type_synonym oidc_Provider = "Context \<Rightarrow> Token \<Rightarrow> string + string"

subsection \<open>The provider\<close>

record endpoint =
  AuthURL :: string
  TokenURL :: string
  UserInfoURL :: string
  JWKSURL :: string
  EndSessionURL :: string

record OIDCProvider =
  Issuer :: string
  ClientID :: string
  ClientSecret :: string
  Endpoint :: endpoint
  RedirectURL :: string
  Scopes :: "string list"
  GetUserInfo :: bool
  InsecureSkipVerify :: bool
  EmailKey :: string
  PreferredUsernameKey :: string
  Provider :: "oidc_Provider option"
  OAuth2Config :: "Config option"
  Verifier :: "IDTokenVerifier option"

record oidcIdentity =
  Sub :: string
  PreferredUsername :: string
  Email :: string

text \<open>
  The errors the provider returns, one constructor per message of the source; the
  argument is the wrapped cause. \<open>NilPointerDereference\<close> is the panic of a method call
  through the pointer \<open>OAuth2Config\<close> when it is nil.
\<close>

datatype error =
    FailedToGetToken string
  | NoIDToken
  | FailedToVerifyIDToken string
  | FailedToDecodeIDTokenClaims string
  | FailedToFetchUserInfo string
  | FailedToDecodeUserInfoClaims string
  | MissingSubClaim
  | UnsupportedAuthenticate
  | NilPointerDereference

fun Error :: "error \<Rightarrow> string" where
  "Error (FailedToGetToken err) = ''oidc: failed to get token: '' @ err"
| "Error NoIDToken = ''no id_token in token response''"
| "Error (FailedToVerifyIDToken err) = ''failed to verify id token: '' @ err"
| "Error (FailedToDecodeIDTokenClaims err) = ''failed to decode id token claims: '' @ err"
| "Error (FailedToFetchUserInfo err) = ''failed to fetch userinfo: '' @ err"
| "Error (FailedToDecodeUserInfoClaims err) = ''failed to decode userinfo claims: '' @ err"
| "Error MissingSubClaim = ''missing required claim \"sub\"''"
| "Error UnsupportedAuthenticate = ''unsupported authenticate with username password''"
| "Error NilPointerDereference = ''runtime error: invalid memory address or nil pointer dereference''"

subsection \<open>Library operations\<close>

text \<open>
  \<^item> \<open>Exchange\<close>: \<open>(*oauth2.Config).Exchange(ctx, code)\<close>;
  \<^item> \<open>ParseUnverified\<close>: \<open>new(jwt.Parser).ParseUnverified(raw, &claims)\<close> on a nil claim
    map: an error, or the claim set it stored;
  \<^item> \<open>Valid\<close>: \<open>jwt.MapClaims.Valid()\<close> at the time of the call (expiry, issued-at,
    not-before): the error, if any;
  \<^item> \<open>Get\<close>: \<open>oauth2.NewClient(ctx, oauth2.StaticTokenSource(token)).Get(url)\<close>;
  \<^item> \<open>json_decode\<close>: the parser of encoding/json: a syntax error, or the JSON value.
\<close>

record deps =
  Exchange :: "Config \<Rightarrow> Context \<Rightarrow> string \<Rightarrow> string + Token"
  ParseUnverified :: "string \<Rightarrow> string + claims"
  Valid :: "claims \<Rightarrow> string option"
  Get :: "Context \<Rightarrow> Token \<Rightarrow> string \<Rightarrow> string + Response"
  json_decode :: "string \<Rightarrow> string + jvalue"

text \<open>
  \<open>json.Unmarshal(data, &claims)\<close> into a map, as encoding/json documents it: a JSON
  object stores its members one by one into the existing map (allocated when nil),
  keeping the entries it does not mention; the literal \<open>null\<close> sets the map to nil; any
  other JSON value is a type error and a syntax error leaves the map untouched.
\<close>

primrec store :: "(string \<times> jvalue) list \<Rightarrow> claims \<Rightarrow> claims" where
  "store [] m = m"
| "store (kv # kvs) m = store kvs (m(fst kv \<mapsto> snd kv))"

definition Unmarshal :: "deps \<Rightarrow> string \<Rightarrow> claims \<Rightarrow> string + claims" where
  "Unmarshal d data m =
     (case json_decode d data of
        Inl err \<Rightarrow> Inl err
      | Inr JNull \<Rightarrow> Inr Map.empty
      | Inr (JObject kvs) \<Rightarrow> Inr (store kvs m)
      | Inr _ \<Rightarrow> Inl ''json: cannot unmarshal into Go value of type jwt.MapClaims'')"

text \<open>The calls that leave the process, in the order they are made.\<close>

datatype call =
    TokenExchange Context string
  | VerifyIDToken Context string
  | ProviderUserInfo Context Token
  | UserInfoGet Context Token string

text \<open>The context a call was made under.\<close>

fun call_context :: "call \<Rightarrow> Context" where
  "call_context (TokenExchange ctx code) = ctx"
| "call_context (VerifyIDToken ctx rawIDToken) = ctx"
| "call_context (ProviderUserInfo ctx token) = ctx"
| "call_context (UserInfoGet ctx token url) = ctx"

subsection \<open>AuthenticateCode\<close>

text \<open>Lines 103-113: the context of the request.\<close>

definition request_context :: "OIDCProvider \<Rightarrow> Context" where
  "request_context p =
     (if InsecureSkipVerify p
      then WithValue_HTTPClient TODO (Client True)
      else TODO)"

text \<open>Lines 122-139: the claims of the identity token.\<close>

definition id_token_claims ::
  "deps \<Rightarrow> OIDCProvider \<Rightarrow> Context \<Rightarrow> string \<Rightarrow> (error + claims) \<times> call list" where
  "id_token_claims d p ctx rawIDToken =
     (case Verifier p of
        Some verify \<Rightarrow>
          (case verify ctx rawIDToken of
             Inl err \<Rightarrow> (Inl (FailedToVerifyIDToken err), [VerifyIDToken ctx rawIDToken])
           | Inr payload \<Rightarrow>
               (case Unmarshal d payload Map.empty of
                  Inl err \<Rightarrow>
                    (Inl (FailedToDecodeIDTokenClaims err), [VerifyIDToken ctx rawIDToken])
                | Inr claims \<Rightarrow> (Inr claims, [VerifyIDToken ctx rawIDToken])))
      | None \<Rightarrow>
          (case ParseUnverified d rawIDToken of
             Inl err \<Rightarrow> (Inl (FailedToDecodeIDTokenClaims err), [])
           | Inr claims \<Rightarrow>
               (case Valid d claims of
                  Some err \<Rightarrow> (Inl (FailedToVerifyIDToken err), [])
                | None \<Rightarrow> (Inr claims, []))))"

text \<open>Lines 140-163: the optional userinfo request, decoded into the same claim map.\<close>

definition userinfo_claims ::
  "deps \<Rightarrow> OIDCProvider \<Rightarrow> Context \<Rightarrow> Token \<Rightarrow> claims \<Rightarrow> (error + claims) \<times> call list" where
  "userinfo_claims d p ctx token claims =
     (if GetUserInfo p then
        (case Provider p of
           Some userInfo \<Rightarrow>
             (case userInfo ctx token of
                Inl err \<Rightarrow> (Inl (FailedToFetchUserInfo err), [ProviderUserInfo ctx token])
              | Inr data \<Rightarrow>
                  (case Unmarshal d data claims of
                     Inl err \<Rightarrow>
                       (Inl (FailedToDecodeUserInfoClaims err), [ProviderUserInfo ctx token])
                   | Inr claims' \<Rightarrow> (Inr claims', [ProviderUserInfo ctx token])))
         | None \<Rightarrow>
             (let url = UserInfoURL (Endpoint p) in
              case Get d ctx token url of
                Inl err \<Rightarrow> (Inl (FailedToFetchUserInfo err), [UserInfoGet ctx token url])
              | Inr resp \<Rightarrow>
                  (case Body resp of
                     Inl err \<Rightarrow> (Inl (FailedToFetchUserInfo err), [UserInfoGet ctx token url])
                   | Inr data \<Rightarrow>
                       (case Unmarshal d data claims of
                          Inl err \<Rightarrow>
                            (Inl (FailedToDecodeUserInfoClaims err),
                             [UserInfoGet ctx token url])
                        | Inr claims' \<Rightarrow> (Inr claims', [UserInfoGet ctx token url])))))
      else (Inr claims, []))"

text \<open>Lines 103-163 together: every step that gathers the claim set.\<close>

definition collect_claims ::
  "deps \<Rightarrow> OIDCProvider \<Rightarrow> string \<Rightarrow> (error + claims) \<times> call list" where
  "collect_claims d p code =
     (let ctx = request_context p in
      case OAuth2Config p of
        None \<Rightarrow> (Inl NilPointerDereference, [])
      | Some cfg \<Rightarrow>
          (case Exchange d cfg ctx code of
             Inl err \<Rightarrow> (Inl (FailedToGetToken err), [TokenExchange ctx code])
           | Inr token \<Rightarrow>
               (case assert_string (Extra token ''id_token'') of
                  (rawIDToken, ok) \<Rightarrow>
                    if \<not> ok then (Inl NoIDToken, [TokenExchange ctx code])
                    else
                      (case id_token_claims d p ctx rawIDToken of
                         (Inl e, cs) \<Rightarrow> (Inl e, TokenExchange ctx code # cs)
                       | (Inr claims, cs) \<Rightarrow>
                           (case userinfo_claims d p ctx token claims of
                              (r, cs') \<Rightarrow> (r, TokenExchange ctx code # cs @ cs'))))))"

text \<open>Lines 165-192: the identity read from the claim set.\<close>

definition resolve_identity :: "OIDCProvider \<Rightarrow> claims \<Rightarrow> error + oidcIdentity" where
  "resolve_identity p claims =
     (case assert_string (claims ''sub'') of
        (subject, ok) \<Rightarrow>
          if \<not> ok then Inl MissingSubClaim
          else
            (let emailKey = (if EmailKey p \<noteq> '''' then EmailKey p else ''email'');
                 email = fst (assert_string (claims emailKey));
                 preferredUsernameKey =
                   (if PreferredUsernameKey p \<noteq> '''' then PreferredUsernameKey p
                    else ''preferred_username'');
                 preferredUsername = fst (assert_string (claims preferredUsernameKey));
                 preferredUsername' =
                   (if preferredUsername = '''' then fst (assert_string (claims ''name''))
                    else preferredUsername)
             in Inr \<lparr>Sub = subject, PreferredUsername = preferredUsername', Email = email\<rparr>))"

definition AuthenticateCode ::
  "deps \<Rightarrow> OIDCProvider \<Rightarrow> string \<Rightarrow> (error + oidcIdentity) \<times> call list" where
  "AuthenticateCode d p code =
     (case collect_claims d p code of
        (Inl e, cs) \<Rightarrow> (Inl e, cs)
      | (Inr claims, cs) \<Rightarrow> (resolve_identity p claims, cs))"

subsection \<open>Authenticate\<close>

text \<open>Lines 197-199: no library is called, whatever the arguments.\<close>

definition Authenticate ::
  "OIDCProvider \<Rightarrow> string \<Rightarrow> string \<Rightarrow> (error + oidcIdentity) \<times> call list" where
  "Authenticate p username password = (Inl UnsupportedAuthenticate, [])"

subsection \<open>AuthCodeURL\<close>

text \<open>
  Lines 78-80 hand the state and \<open>oidc.Nonce(nonce)\<close> to \<open>(*oauth2.Config).AuthCodeURL\<close>.
  That method and \<open>url.Values.Encode\<close> of net/url, which it ends with, belong to the
  libraries; they are written out here after the libraries' sources, since the URL is
  their result:
  \<^verbatim>\<open>
  v := url.Values{"response_type": {"code"}, "client_id": {c.ClientID}}
  if c.RedirectURL != "" { v.Set("redirect_uri", c.RedirectURL) }
  if len(c.Scopes) > 0 { v.Set("scope", strings.Join(c.Scopes, " ")) }
  if state != "" { v.Set("state", state) }
  for _, opt := range opts { opt.setValue(v) }
  if strings.Contains(c.Endpoint.AuthURL, "?") { buf.WriteByte('&') }
  else { buf.WriteByte('?') }
  buf.WriteString(v.Encode())
  \<close>
\<close>






text \<open>
  \<open>url.QueryEscape\<close>: letters, digits and \<open>- _ . ~\<close> stay; a space becomes \<open>+\<close>; every
  other byte becomes \<open>%\<close> and its two upper-case hexadecimal digits.
\<close>

definition shouldEscape :: "char \<Rightarrow> bool" where
  "shouldEscape c \<longleftrightarrow>
     \<not> (CHR ''a'' \<le> c \<and> c \<le> CHR ''z'' \<or> CHR ''A'' \<le> c \<and> c \<le> CHR ''Z''
        \<or> CHR ''0'' \<le> c \<and> c \<le> CHR ''9''
        \<or> c = CHR ''-'' \<or> c = CHR ''_'' \<or> c = CHR ''.'' \<or> c = CHR ''~'')"

definition upperhex :: string where
  "upperhex = ''0123456789ABCDEF''"

definition escape_byte :: "char \<Rightarrow> string" where
  "escape_byte c =
     (if shouldEscape c then
        (if c = CHR '' '' then ''+''
         else [CHR ''%'', upperhex ! (of_char c div 16), upperhex ! (of_char c mod 16)])
      else [c])"

definition QueryEscape :: "string \<Rightarrow> string" where
  "QueryEscape s = concat (map escape_byte s)"







subsection \<open>A concrete provider and concrete library outcomes\<close>

text \<open>
  A provider without discovery (no \<open>Provider\<close>, no \<open>Verifier\<close>) and library outcomes
  selected by the authorization code and the token, used to run the model.
\<close>

definition cfg0 :: Config where
  "cfg0 = \<lparr>Config_ClientID = ''app'', Config_ClientSecret = ''secret'',
     Config_AuthURL = ''https://idp.example/auth'',
     Config_TokenURL = ''https://idp.example/token'',
     Config_RedirectURL = ''https://app.example/cb'',
     Config_Scopes = [''openid'', ''email'']\<rparr>"

definition provider0 :: OIDCProvider where
  "provider0 = \<lparr>Issuer = '''', ClientID = ''app'', ClientSecret = ''secret'',
     Endpoint = \<lparr>AuthURL = ''https://idp.example/auth'',
       TokenURL = ''https://idp.example/token'',
       UserInfoURL = ''https://idp.example/userinfo'', JWKSURL = '''', EndSessionURL = ''''\<rparr>,
     RedirectURL = ''https://app.example/cb'', Scopes = [''openid'', ''email''],
     GetUserInfo = False, InsecureSkipVerify = False, EmailKey = '''',
     PreferredUsernameKey = '''', Provider = None, OAuth2Config = Some cfg0,
     Verifier = None\<rparr>"

definition token_with :: "string \<Rightarrow> Token" where
  "token_with rawIDToken =
     \<lparr>AccessToken = ''at'', raw = [''id_token'' \<mapsto> JString rawIDToken]\<rparr>"

definition token_noid :: Token where
  "token_noid = \<lparr>AccessToken = ''at'', raw = [''token_type'' \<mapsto> JString ''Bearer'']\<rparr>"

definition deps0 :: deps where
  "deps0 = \<lparr>
     Exchange = (\<lambda>cfg ctx code.
        if code = ''good'' then Inr (token_with ''tok'')
        else if code = ''expired'' then Inr (token_with ''old'')
        else if code = ''garbled'' then Inr (token_with ''xx'')
        else if code = ''anon'' then Inr (token_with ''nosub'')
        else if code = ''noid'' then Inr token_noid
        else Inl ''oauth2: cannot fetch token''),
     ParseUnverified = (\<lambda>rawIDToken.
        if rawIDToken = ''tok''
        then Inr [''sub'' \<mapsto> JString ''u1'', ''mail'' \<mapsto> JString ''a@b.com'',
                  ''name'' \<mapsto> JString ''Alice'']
        else if rawIDToken = ''old''
        then Inr [''sub'' \<mapsto> JString ''u1'', ''exp'' \<mapsto> JNumber ''1'']
        else if rawIDToken = ''nosub'' then Inr [''name'' \<mapsto> JString ''Alice'']
        else Inl ''token contains an invalid number of segments''),
     Valid = (\<lambda>claims.
        if claims ''exp'' = Some (JNumber ''1'') then Some ''Token is expired'' else None),
     Get = (\<lambda>ctx token url.
        if url = ''https://idp.example/userinfo''
        then Inr \<lparr>StatusCode = 500, Body = Inr ''{\"email\":\"u1@b.com\"}''\<rparr>
        else if url = ''https://idp.example/null''
        then Inr \<lparr>StatusCode = 200, Body = Inr ''null''\<rparr>
        else Inl ''dial tcp: connection refused''),
     json_decode = (\<lambda>data.
        if data = ''null'' then Inr JNull
        else if data = ''{\"email\":\"u1@b.com\"}''
        then Inr (JObject [(''email'', JString ''u1@b.com'')])
        else if data = ''{\"sub\":\"u1\"}'' then Inr (JObject [(''sub'', JString ''u1'')])
        else Inl ''invalid character'')\<rparr>"

definition verifier0 :: IDTokenVerifier where
  "verifier0 ctx rawIDToken =
     (if rawIDToken = ''tok'' then Inr ''{\"sub\":\"u1\"}''
      else Inl ''oidc: failed to verify signature'')"

definition provider_null :: OIDCProvider where
  "provider_null =
     provider0\<lparr>GetUserInfo := True,
       Endpoint := (Endpoint provider0)\<lparr>UserInfoURL := ''https://idp.example/null''\<rparr>\<rparr>"

section \<open>Properties\<close>

lemmas fixture_defs = deps0_def provider0_def cfg0_def token_with_def token_noid_def verifier0_def

lemmas model_defs = AuthenticateCode_def collect_claims_def id_token_claims_def
  userinfo_claims_def resolve_identity_def request_context_def assert_string_def Extra_def
  Unmarshal_def TODO_def WithValue_HTTPClient_def

lemma assert_string_JString [simp]: "assert_string (Some (JString s)) = (s, True)"
  by (simp add: assert_string_def)

lemma Unmarshal_frame:
  "Unmarshal (d\<lparr>ParseUnverified := parse, Valid := valid\<rparr>) data m = Unmarshal d data m"
  by (simp add: Unmarshal_def)

lemma collect_claims_verify_failed:
  assumes "OAuth2Config p = Some cfg"
    and "Exchange d cfg (request_context p) code = Inr token"
    and "Extra token ''id_token'' = Some (JString rawIDToken)"
    and "id_token_claims d p (request_context p) rawIDToken = (Inl e, cs)"
  shows "AuthenticateCode d p code = (Inl e, TokenExchange (request_context p) code # cs)"
  using assms by (simp add: AuthenticateCode_def collect_claims_def)

text \<open>
  C1. Once the token exchange has returned a token whose \<open>id_token\<close> is a string, the
  claims come from exactly one of two paths, chosen by the presence of a verifier.
  With a verifier: a token that \<open>Verify\<close> rejects (signature or standard claims) gives
  the error "failed to verify id token" and no identity, and the result does not depend
  on the unverified parser or on the validity check. Without a verifier: the token is
  parsed by \<open>ParseUnverified\<close>; a parse failure gives "failed to decode id token
  claims"; a parsed claim set that the validity check \<open>Valid\<close> rejects (an expired
  token) gives "failed to verify id token"; and \<open>Verify\<close> is never called.
\<close>

theorem id_token_claims_paths:
  assumes "OAuth2Config p = Some cfg"
    and "Exchange d cfg (request_context p) code = Inr token"
    and "Extra token ''id_token'' = Some (JString rawIDToken)"
  shows "(\<forall>verify err. Verifier p = Some verify
            \<and> verify (request_context p) rawIDToken = Inl err
          \<longrightarrow> fst (AuthenticateCode d p code) = Inl (FailedToVerifyIDToken err))
       \<and> (\<forall>verify parse valid. Verifier p = Some verify
          \<longrightarrow> AuthenticateCode (d\<lparr>ParseUnverified := parse, Valid := valid\<rparr>) p code
              = AuthenticateCode d p code)
       \<and> (\<forall>err. Verifier p = None \<and> ParseUnverified d rawIDToken = Inl err
          \<longrightarrow> fst (AuthenticateCode d p code) = Inl (FailedToDecodeIDTokenClaims err))
       \<and> (\<forall>claims err. Verifier p = None \<and> ParseUnverified d rawIDToken = Inr claims
            \<and> Valid d claims = Some err
          \<longrightarrow> fst (AuthenticateCode d p code) = Inl (FailedToVerifyIDToken err))
       \<and> (Verifier p = None
          \<longrightarrow> (\<forall>ctx t. VerifyIDToken ctx t \<notin> set (snd (AuthenticateCode d p code))))"
proof (intro conjI allI impI)
  fix verify err
  assume "Verifier p = Some verify \<and> verify (request_context p) rawIDToken = Inl err"
  then have "id_token_claims d p (request_context p) rawIDToken
      = (Inl (FailedToVerifyIDToken err), [VerifyIDToken (request_context p) rawIDToken])"
    by (simp add: id_token_claims_def)
  from collect_claims_verify_failed [OF assms this]
  show "fst (AuthenticateCode d p code) = Inl (FailedToVerifyIDToken err)" by simp
next
  fix verify parse valid
  assume v: "Verifier p = Some verify"
  have "id_token_claims (d\<lparr>ParseUnverified := parse, Valid := valid\<rparr>) p ctx r
      = id_token_claims d p ctx r" for ctx r
    using v by (simp add: id_token_claims_def Unmarshal_frame cong: sum.case_cong)
  moreover have "userinfo_claims (d\<lparr>ParseUnverified := parse, Valid := valid\<rparr>) p ctx t c
      = userinfo_claims d p ctx t c" for ctx t c
    by (simp add: userinfo_claims_def Unmarshal_frame cong: sum.case_cong option.case_cong)
  ultimately show "AuthenticateCode (d\<lparr>ParseUnverified := parse, Valid := valid\<rparr>) p code
      = AuthenticateCode d p code"
    using assms
    by (simp add: AuthenticateCode_def collect_claims_def Let_def split: prod.splits sum.splits)
next
  fix err
  assume "Verifier p = None \<and> ParseUnverified d rawIDToken = Inl err"
  then have "id_token_claims d p (request_context p) rawIDToken
      = (Inl (FailedToDecodeIDTokenClaims err), [])"
    by (simp add: id_token_claims_def)
  from collect_claims_verify_failed [OF assms this]
  show "fst (AuthenticateCode d p code) = Inl (FailedToDecodeIDTokenClaims err)" by simp
next
  fix claims err
  assume "Verifier p = None \<and> ParseUnverified d rawIDToken = Inr claims
            \<and> Valid d claims = Some err"
  then have "id_token_claims d p (request_context p) rawIDToken
      = (Inl (FailedToVerifyIDToken err), [])"
    by (simp add: id_token_claims_def)
  from collect_claims_verify_failed [OF assms this]
  show "fst (AuthenticateCode d p code) = Inl (FailedToVerifyIDToken err)" by simp
next
  fix ctx t
  assume v: "Verifier p = None"
  have a: "cs = []" if "id_token_claims d p c r = (res, cs)" for c r res cs
    using v that by (auto simp: id_token_claims_def split: sum.splits option.splits)
  have b: "VerifyIDToken ctx t \<notin> set cs" if "userinfo_claims d p c tk cl = (res, cs)"
    for c tk cl res cs
    using that
    by (auto simp: userinfo_claims_def Let_def split: sum.splits option.splits if_splits)
  obtain r1 cs1 where i: "id_token_claims d p (request_context p) rawIDToken = (r1, cs1)"
    by (cases "id_token_claims d p (request_context p) rawIDToken")
  have cs1: "cs1 = []" using a [OF i] .
  show "VerifyIDToken ctx t \<notin> set (snd (AuthenticateCode d p code))"
  proof (cases r1)
    case (Inl e)
    with assms i cs1 show ?thesis
      by (simp add: AuthenticateCode_def collect_claims_def)
  next
    case (Inr claims)
    obtain r2 cs2 where u: "userinfo_claims d p (request_context p) token claims = (r2, cs2)"
      by (cases "userinfo_claims d p (request_context p) token claims")
    from assms i cs1 Inr u b [OF u] show ?thesis
      by (simp add: AuthenticateCode_def collect_claims_def split: sum.splits)
  qed
qed

theorem id_token_claims_paths_witness:
  "fst (AuthenticateCode deps0 (provider0\<lparr>Verifier := Some verifier0\<rparr>) ''garbled'')
     = Inl (FailedToVerifyIDToken ''oidc: failed to verify signature'')
   \<and> fst (AuthenticateCode deps0 provider0 ''garbled'')
     = Inl (FailedToDecodeIDTokenClaims ''token contains an invalid number of segments'')
   \<and> fst (AuthenticateCode deps0 provider0 ''expired'')
     = Inl (FailedToVerifyIDToken ''Token is expired'')"
proof -
  have 1: "fst (AuthenticateCode deps0 (provider0\<lparr>Verifier := Some verifier0\<rparr>) ''garbled'')
     = Inl (FailedToVerifyIDToken ''oidc: failed to verify signature'')"
    using id_token_claims_paths [of "provider0\<lparr>Verifier := Some verifier0\<rparr>" cfg0 deps0
        "''garbled''" "token_with ''xx''" "''xx''"]
    by (simp add: fixture_defs request_context_def TODO_def Extra_def)
  have 2: "fst (AuthenticateCode deps0 provider0 ''garbled'')
     = Inl (FailedToDecodeIDTokenClaims ''token contains an invalid number of segments'')"
    using id_token_claims_paths [of provider0 cfg0 deps0 "''garbled''" "token_with ''xx''" "''xx''"]
    by (simp add: fixture_defs request_context_def TODO_def Extra_def)
  have 3: "fst (AuthenticateCode deps0 provider0 ''expired'')
     = Inl (FailedToVerifyIDToken ''Token is expired'')"
    using id_token_claims_paths [of provider0 cfg0 deps0 "''expired''" "token_with ''old''" "''old''"]
    by (simp add: fixture_defs request_context_def TODO_def Extra_def)
  from 1 2 3 show ?thesis by simp
qed



text \<open>
  C5. Credential-based authentication rejects every username and password: whatever the
  provider and the arguments, it returns the error "unsupported authenticate with
  username password", no identity, and makes no outbound call.
\<close>

theorem Authenticate_unsupported:
  "Authenticate p username password = (Inl UnsupportedAuthenticate, [])
   \<and> Error UnsupportedAuthenticate = ''unsupported authenticate with username password''
   \<and> (\<nexists>identity. fst (Authenticate p username password) = Inr identity)
   \<and> snd (Authenticate p username password) = []"
  by (simp add: Authenticate_def)

lemma collect_good:
  "collect_claims deps0 provider0 ''good''
     = (Inr [''sub'' \<mapsto> JString ''u1'', ''mail'' \<mapsto> JString ''a@b.com'',
             ''name'' \<mapsto> JString ''Alice''],
        [TokenExchange TODO ''good''])"
  by (simp add: collect_claims_def id_token_claims_def userinfo_claims_def fixture_defs
      request_context_def TODO_def Extra_def)

lemma collect_good_mail:
  "collect_claims deps0 (provider0\<lparr>EmailKey := ''mail''\<rparr>) ''good''
     = (Inr [''sub'' \<mapsto> JString ''u1'', ''mail'' \<mapsto> JString ''a@b.com'',
             ''name'' \<mapsto> JString ''Alice''],
        [TokenExchange TODO ''good''])"
  by (simp add: collect_claims_def id_token_claims_def userinfo_claims_def fixture_defs
      request_context_def TODO_def Extra_def)

text \<open>
  C4. Whatever claim set the earlier steps have gathered, if it has no \<open>sub\<close> claim or
  the \<open>sub\<close> claim is not a string, AuthenticateCode returns the error "missing required
  claim sub" and no identity.
\<close>

theorem missing_subject_claim:
  assumes "collect_claims d p code = (Inr claims, calls)"
    and "\<nexists>subject. claims ''sub'' = Some (JString subject)"
  shows "AuthenticateCode d p code = (Inl MissingSubClaim, calls)"
  using assms
  by (auto simp: AuthenticateCode_def resolve_identity_def assert_string_def
      split: option.splits jvalue.splits)

theorem missing_subject_claim_witness:
  "AuthenticateCode deps0 provider0 ''anon''
     = (Inl MissingSubClaim, [TokenExchange TODO ''anon''])"
proof -
  have "collect_claims deps0 provider0 ''anon''
      = (Inr [''name'' \<mapsto> JString ''Alice''], [TokenExchange TODO ''anon''])"
    by (simp add: collect_claims_def id_token_claims_def userinfo_claims_def fixture_defs
        request_context_def TODO_def Extra_def)
  from missing_subject_claim [OF this] show ?thesis by simp
qed

text \<open>
  C7. When the gathered claim set has a string \<open>sub\<close>, AuthenticateCode succeeds and the
  email of the identity is the string found under the key \<open>EmailKey\<close> when that is set,
  else under \<open>email\<close>. With the override \<open>mail\<close> and a claim \<open>mail\<close> of "a@b.com" the
  email is "a@b.com"; an absent or empty claim gives the empty email, not an error.
\<close>

theorem email_resolution:
  assumes "collect_claims d p code = (Inr claims, calls)"
    and "claims ''sub'' = Some (JString subject)"
  shows "\<exists>identity. AuthenticateCode d p code = (Inr identity, calls)
           \<and> Email identity
               = fst (assert_string (claims (if EmailKey p \<noteq> '''' then EmailKey p else ''email'')))
           \<and> (EmailKey p = ''mail'' \<and> claims ''mail'' = Some (JString ''a@b.com'')
                \<longrightarrow> Email identity = ''a@b.com'')
           \<and> (claims (if EmailKey p \<noteq> '''' then EmailKey p else ''email'') = None
                \<longrightarrow> Email identity = '''')
           \<and> (claims (if EmailKey p \<noteq> '''' then EmailKey p else ''email'') = Some (JString '''')
                \<longrightarrow> Email identity = '''')"
  using assms
  by (auto simp: AuthenticateCode_def resolve_identity_def assert_string_def Let_def)

theorem email_resolution_witness:
  "(\<exists>identity. AuthenticateCode deps0 (provider0\<lparr>EmailKey := ''mail''\<rparr>) ''good''
        = (Inr identity, [TokenExchange TODO ''good'']) \<and> Email identity = ''a@b.com'')
   \<and> (\<exists>identity. AuthenticateCode deps0 provider0 ''good''
        = (Inr identity, [TokenExchange TODO ''good'']) \<and> Email identity = '''')"
proof -
  have k1: "EmailKey (provider0\<lparr>EmailKey := ''mail''\<rparr>) = ''mail''" by simp
  have k2: "EmailKey provider0 = ''''" by (simp add: provider0_def)
  from email_resolution [OF collect_good_mail, of "''u1''"] k1
  have a: "\<exists>identity.
      AuthenticateCode deps0 (provider0\<lparr>EmailKey := ''mail''\<rparr>) ''good''
        = (Inr identity, [TokenExchange TODO ''good'']) \<and> Email identity = ''a@b.com''"
    by auto
  from email_resolution [OF collect_good, of "''u1''"] k2
  have b: "\<exists>identity.
      AuthenticateCode deps0 provider0 ''good''
        = (Inr identity, [TokenExchange TODO ''good'']) \<and> Email identity = ''''"
    by auto
  from a b show ?thesis by blast
qed

text \<open>
  C8. When the gathered claim set has a string \<open>sub\<close>, AuthenticateCode succeeds and the
  preferred username is the string found under \<open>PreferredUsernameKey\<close> when that is set,
  else under \<open>preferred_username\<close>; when that string is empty (no claim, or not a
  string) it is the string under \<open>name\<close> instead, so a \<open>name\<close> of "Alice" gives "Alice";
  with neither claim it is empty, not an error.
\<close>

theorem preferred_username_resolution:
  assumes "collect_claims d p code = (Inr claims, calls)"
    and "claims ''sub'' = Some (JString subject)"
  shows "\<exists>identity. AuthenticateCode d p code = (Inr identity, calls)
           \<and> PreferredUsername identity
               = (let key = (if PreferredUsernameKey p \<noteq> '''' then PreferredUsernameKey p
                             else ''preferred_username'');
                      found = fst (assert_string (claims key))
                  in if found = '''' then fst (assert_string (claims ''name'')) else found)
           \<and> (claims (if PreferredUsernameKey p \<noteq> '''' then PreferredUsernameKey p
                        else ''preferred_username'') = None
                \<and> claims ''name'' = Some (JString ''Alice'')
                \<longrightarrow> PreferredUsername identity = ''Alice'')
           \<and> (claims (if PreferredUsernameKey p \<noteq> '''' then PreferredUsernameKey p
                        else ''preferred_username'') = None
                \<and> claims ''name'' = None
                \<longrightarrow> PreferredUsername identity = '''')"
  using assms
  by (auto simp: AuthenticateCode_def resolve_identity_def assert_string_def Let_def)

theorem preferred_username_resolution_witness:
  "\<exists>identity. AuthenticateCode deps0 provider0 ''good''
        = (Inr identity, [TokenExchange TODO ''good''])
      \<and> PreferredUsername identity = ''Alice''"
proof -
  have k: "PreferredUsernameKey provider0 = ''''" by (simp add: provider0_def)
  from preferred_username_resolution [OF collect_good, of "''u1''"] k show ?thesis
    by auto
qed

lemma resolve_identity_error:
  "resolve_identity p claims = Inl e \<Longrightarrow> e = MissingSubClaim"
  by (auto simp: resolve_identity_def Let_def split: prod.splits if_splits)

lemma Unmarshal_Get_frame:
  "Unmarshal (d\<lparr>Get := g\<rparr>) data m = Unmarshal d data m"
  by (simp add: Unmarshal_def)

lemma Unmarshal_error_iff:
  "(\<exists>err. Unmarshal d data m = Inl err) \<longleftrightarrow>
     (\<exists>err. json_decode d data = Inl err)
     \<or> (\<exists>v. json_decode d data = Inr v \<and> v \<noteq> JNull \<and> (\<nexists>kvs. v = JObject kvs))"
  by (auto simp: Unmarshal_def split: sum.splits jvalue.splits)

lemma AuthenticateCode_after_id_token:
  assumes "OAuth2Config p = Some cfg"
    and "Exchange d cfg (request_context p) code = Inr token"
    and "Extra token ''id_token'' = Some (JString rawIDToken)"
    and "id_token_claims d p (request_context p) rawIDToken = (Inr claims, cs)"
    and "userinfo_claims d p (request_context p) token claims = (r, cs')"
  shows "AuthenticateCode d p code =
           (case r of Inl e \<Rightarrow> Inl e | Inr claims' \<Rightarrow> resolve_identity p claims',
            TokenExchange (request_context p) code # cs @ cs')"
  using assms by (simp add: AuthenticateCode_def collect_claims_def split: sum.splits)

lemma userinfo_claims_direct:
  assumes "GetUserInfo p" and "Provider p = None"
  shows "userinfo_claims d p ctx token claims =
           (case Get d ctx token (UserInfoURL (Endpoint p)) of
              Inl err \<Rightarrow> Inl (FailedToFetchUserInfo err)
            | Inr resp \<Rightarrow>
                (case Body resp of
                   Inl err \<Rightarrow> Inl (FailedToFetchUserInfo err)
                 | Inr data \<Rightarrow>
                     (case Unmarshal d data claims of
                        Inl err \<Rightarrow> Inl (FailedToDecodeUserInfoClaims err)
                      | Inr claims' \<Rightarrow> Inr claims')),
            [UserInfoGet ctx token (UserInfoURL (Endpoint p))])"
  using assms by (simp add: userinfo_claims_def Let_def split: sum.splits)

text \<open>
  C10. On the direct userinfo path (userinfo enabled, no \<open>Provider\<close>), once the identity
  token has been accepted: the status code of the userinfo response has no influence on
  the result; AuthenticateCode fails with "failed to fetch userinfo" exactly when the
  request itself fails or the body cannot be read, and with "failed to decode userinfo
  claims" exactly when the body that was read is not valid JSON or is a JSON value
  other than an object or \<open>null\<close>.
\<close>

theorem userinfo_status_not_checked:
  assumes "OAuth2Config p = Some cfg"
    and "Exchange d cfg (request_context p) code = Inr token"
    and "Extra token ''id_token'' = Some (JString rawIDToken)"
    and "id_token_claims d p (request_context p) rawIDToken = (Inr claims, cs)"
    and "GetUserInfo p" and "Provider p = None"
  shows "(\<forall>status.
            AuthenticateCode
              (d\<lparr>Get := \<lambda>ctx t url.
                    map_sum id (\<lambda>resp. resp\<lparr>StatusCode := status\<rparr>) (Get d ctx t url)\<rparr>)
              p code
            = AuthenticateCode d p code)
       \<and> ((\<exists>err. fst (AuthenticateCode d p code) = Inl (FailedToFetchUserInfo err)) \<longleftrightarrow>
            (\<exists>err. Get d (request_context p) token (UserInfoURL (Endpoint p)) = Inl err)
            \<or> (\<exists>resp err. Get d (request_context p) token (UserInfoURL (Endpoint p)) = Inr resp
                  \<and> Body resp = Inl err))
       \<and> ((\<exists>err. fst (AuthenticateCode d p code) = Inl (FailedToDecodeUserInfoClaims err)) \<longleftrightarrow>
            (\<exists>resp data. Get d (request_context p) token (UserInfoURL (Endpoint p)) = Inr resp
                  \<and> Body resp = Inr data
                  \<and> ((\<exists>err. json_decode d data = Inl err)
                     \<or> (\<exists>v. json_decode d data = Inr v \<and> v \<noteq> JNull
                            \<and> (\<nexists>kvs. v = JObject kvs)))))"
proof (intro conjI allI)
  let ?ctx = "request_context p" and ?url = "UserInfoURL (Endpoint p)"
  let ?u = "userinfo_claims d p ?ctx token claims"
  have run: "AuthenticateCode d p code =
      (case fst ?u of Inl e \<Rightarrow> Inl e | Inr claims' \<Rightarrow> resolve_identity p claims',
       TokenExchange ?ctx code # cs @ snd ?u)"
    using AuthenticateCode_after_id_token [OF assms(1-4), of "fst ?u" "snd ?u"] by simp
  have u: "fst ?u =
      (case Get d ?ctx token ?url of
         Inl err \<Rightarrow> Inl (FailedToFetchUserInfo err)
       | Inr resp \<Rightarrow>
           (case Body resp of
              Inl err \<Rightarrow> Inl (FailedToFetchUserInfo err)
            | Inr data \<Rightarrow>
                (case Unmarshal d data claims of
                   Inl err \<Rightarrow> Inl (FailedToDecodeUserInfoClaims err)
                 | Inr claims' \<Rightarrow> Inr claims')))"
    by (simp add: userinfo_claims_direct [OF assms(5,6)])
  show "(\<exists>err. fst (AuthenticateCode d p code) = Inl (FailedToFetchUserInfo err)) \<longleftrightarrow>
            (\<exists>err. Get d ?ctx token ?url = Inl err)
            \<or> (\<exists>resp err. Get d ?ctx token ?url = Inr resp \<and> Body resp = Inl err)"
    by (auto simp: run u split: sum.splits dest: resolve_identity_error)
  show "(\<exists>err. fst (AuthenticateCode d p code) = Inl (FailedToDecodeUserInfoClaims err)) \<longleftrightarrow>
            (\<exists>resp data. Get d ?ctx token ?url = Inr resp \<and> Body resp = Inr data
                  \<and> ((\<exists>err. json_decode d data = Inl err)
                     \<or> (\<exists>v. json_decode d data = Inr v \<and> v \<noteq> JNull
                            \<and> (\<nexists>kvs. v = JObject kvs))))"
    unfolding Unmarshal_error_iff [symmetric, of d _ claims]
    by (auto simp: run u split: sum.splits dest: resolve_identity_error)
next
  fix status
  let ?d = "d\<lparr>Get := \<lambda>ctx t url.
                    map_sum id (\<lambda>resp. resp\<lparr>StatusCode := status\<rparr>) (Get d ctx t url)\<rparr>"
  have i: "id_token_claims ?d p ctx r = id_token_claims d p ctx r" for ctx r
    by (simp add: id_token_claims_def Unmarshal_Get_frame cong: sum.case_cong option.case_cong)
  have u: "userinfo_claims ?d p ctx t c = userinfo_claims d p ctx t c" for ctx t c
    by (cases "Get d ctx t (UserInfoURL (Endpoint p))")
       (simp_all add: userinfo_claims_def Unmarshal_Get_frame Let_def
          cong: sum.case_cong option.case_cong)
  show "AuthenticateCode ?d p code = AuthenticateCode d p code"
    using assms(1-3)
    by (simp add: AuthenticateCode_def collect_claims_def i u Let_def
        split: prod.splits sum.splits)
qed

theorem userinfo_status_not_checked_witness:
  "AuthenticateCode deps0 (provider0\<lparr>GetUserInfo := True\<rparr>) ''good''
     = (Inr \<lparr>Sub = ''u1'', PreferredUsername = ''Alice'', Email = ''u1@b.com''\<rparr>,
        [TokenExchange TODO ''good'',
         UserInfoGet TODO (token_with ''tok'') ''https://idp.example/userinfo''])
   \<and> map_sum id StatusCode
         (Get deps0 TODO (token_with ''tok'') ''https://idp.example/userinfo'') = Inr 500
   \<and> (\<nexists>err. fst (AuthenticateCode deps0 (provider0\<lparr>GetUserInfo := True\<rparr>) ''good'')
         = Inl (FailedToFetchUserInfo err))
   \<and> AuthenticateCode
         (deps0\<lparr>Get := \<lambda>ctx t url.
            map_sum id (\<lambda>resp. resp\<lparr>StatusCode := 200\<rparr>) (Get deps0 ctx t url)\<rparr>)
         (provider0\<lparr>GetUserInfo := True\<rparr>) ''good''
       = AuthenticateCode deps0 (provider0\<lparr>GetUserInfo := True\<rparr>) ''good''"
proof -
  let ?p = "provider0\<lparr>GetUserInfo := True\<rparr>"
  let ?claims = "[''sub'' \<mapsto> JString ''u1'', ''mail'' \<mapsto> JString ''a@b.com'',
                  ''name'' \<mapsto> JString ''Alice'']"
  have a1: "OAuth2Config ?p = Some cfg0" by (simp add: provider0_def)
  have a2: "Exchange deps0 cfg0 (request_context ?p) ''good'' = Inr (token_with ''tok'')"
    by (simp add: deps0_def)
  have a3: "Extra (token_with ''tok'') ''id_token'' = Some (JString ''tok'')"
    by (simp add: Extra_def token_with_def)
  have a4: "id_token_claims deps0 ?p (request_context ?p) ''tok'' = (Inr ?claims, [])"
    by (simp add: id_token_claims_def deps0_def provider0_def)
  have a5: "GetUserInfo ?p" by simp
  have a6: "Provider ?p = None" by (simp add: provider0_def)
  have run: "AuthenticateCode deps0 ?p ''good''
     = (Inr \<lparr>Sub = ''u1'', PreferredUsername = ''Alice'', Email = ''u1@b.com''\<rparr>,
        [TokenExchange TODO ''good'',
         UserInfoGet TODO (token_with ''tok'') ''https://idp.example/userinfo''])"
    by (simp add: model_defs fixture_defs)
  have st: "map_sum id StatusCode
         (Get deps0 TODO (token_with ''tok'') ''https://idp.example/userinfo'') = Inr 500"
    by (simp add: deps0_def)
  from userinfo_status_not_checked [OF a1 a2 a3 a4 a5 a6] run st show ?thesis
    by simp
qed

text \<open>
  What decoding a userinfo document into the claim map does, on either userinfo path: an
  object is merged, its members taking precedence (the last occurrence of a repeated
  key wins) and the other claims staying; the literal \<open>null\<close> empties the map.
\<close>

lemma store_lookup:
  "store kvs m k = (case map_of (rev kvs) k of Some v \<Rightarrow> Some v | None \<Rightarrow> m k)"
  by (induction kvs arbitrary: m) (auto split: option.splits)

lemma userinfo_claims_object:
  assumes "GetUserInfo p"
    and "case Provider p of
           Some userInfo \<Rightarrow> userInfo ctx token = Inr data
         | None \<Rightarrow> (\<exists>resp. Get d ctx token (UserInfoURL (Endpoint p)) = Inr resp
                      \<and> Body resp = Inr data)"
    and "json_decode d data = Inr (JObject kvs)"
  shows "fst (userinfo_claims d p ctx token claims) = Inr (store kvs claims)"
  using assms
  by (auto simp: userinfo_claims_def Unmarshal_def Let_def split: option.splits)

lemma userinfo_claims_null:
  assumes "GetUserInfo p"
    and "case Provider p of
           Some userInfo \<Rightarrow> userInfo ctx token = Inr data
         | None \<Rightarrow> (\<exists>resp. Get d ctx token (UserInfoURL (Endpoint p)) = Inr resp
                      \<and> Body resp = Inr data)"
    and "json_decode d data = Inr JNull"
  shows "fst (userinfo_claims d p ctx token claims) = Inr Map.empty"
  using assms
  by (auto simp: userinfo_claims_def Unmarshal_def Let_def split: option.splits)

text \<open>
  C6. The merge keeps the identity-token claims that the userinfo response does not
  mention only when the response is a JSON object. For the body \<open>null\<close> the request and
  the decoding both succeed, and the claim map is emptied: the identity token below
  carries the subject "u1", and AuthenticateCode answers "missing required claim sub",
  although without userinfo the same code yields the identity of "u1".
\<close>

theorem userinfo_null_discards_claims:
  "(case fst (id_token_claims deps0 provider_null TODO ''tok'') of
      Inl e \<Rightarrow> False
    | Inr claims \<Rightarrow> claims ''sub'' = Some (JString ''u1''))
   \<and> Get deps0 TODO (token_with ''tok'') (UserInfoURL (Endpoint provider_null))
       = Inr \<lparr>StatusCode = 200, Body = Inr ''null''\<rparr>
   \<and> json_decode deps0 ''null'' = Inr JNull
   \<and> AuthenticateCode deps0 provider_null ''good''
       = (Inl MissingSubClaim,
          [TokenExchange TODO ''good'',
           UserInfoGet TODO (token_with ''tok'') ''https://idp.example/null''])
   \<and> fst (AuthenticateCode deps0 (provider_null\<lparr>GetUserInfo := False\<rparr>) ''good'')
       = Inr \<lparr>Sub = ''u1'', PreferredUsername = ''Alice'', Email = ''''\<rparr>"
  by (simp add: model_defs fixture_defs provider_null_def)






lemma QueryEscape_key [simp]:
  "QueryEscape ''nonce'' = ''nonce''" "QueryEscape ''state'' = ''state''"
  "QueryEscape ''client_id'' = ''client_id''" "QueryEscape ''redirect_uri'' = ''redirect_uri''"
  "QueryEscape ''scope'' = ''scope''" "QueryEscape ''response_type'' = ''response_type''"
  by (simp_all add: QueryEscape_def escape_byte_def shouldEscape_def)







text \<open>
  AuthenticateCode takes no context from its caller: every call it makes runs under the
  context it builds itself, \<open>context.TODO()\<close>, to which at most the HTTP client without
  certificate checks is attached.
\<close>

lemma id_token_claims_context:
  "id_token_claims d p ctx rawIDToken = (r, cs) \<Longrightarrow> c \<in> set cs \<Longrightarrow> call_context c = ctx"
  by (auto simp: id_token_claims_def split: option.splits sum.splits)

lemma userinfo_claims_context:
  "userinfo_claims d p ctx token claims = (r, cs) \<Longrightarrow> c \<in> set cs \<Longrightarrow> call_context c = ctx"
  by (auto simp: userinfo_claims_def Let_def split: option.splits sum.splits if_splits)

lemma collect_claims_context:
  "collect_claims d p code = (r, cs) \<Longrightarrow> c \<in> set cs \<Longrightarrow> call_context c = request_context p"
  by (auto simp: collect_claims_def Let_def
      split: option.splits sum.splits prod.splits if_splits
      dest: id_token_claims_context userinfo_claims_context)

lemma AuthenticateCode_context:
  assumes "c \<in> set (snd (AuthenticateCode d p code))"
  shows "call_context c = request_context p"
    and "request_context p = TODO \<or> request_context p = WithValue_HTTPClient TODO (Client True)"
proof -
  obtain r cs where rc: "collect_claims d p code = (r, cs)"
    by (cases "collect_claims d p code")
  with assms have "c \<in> set cs"
    by (auto simp: AuthenticateCode_def split: sum.splits)
  with rc show "call_context c = request_context p"
    by (rule collect_claims_context)
  show "request_context p = TODO \<or> request_context p = WithValue_HTTPClient TODO (Client True)"
    by (simp add: request_context_def)
qed


end
